theory Spec2Isabelle
  imports Main "HOL-Library.Sublist"
begin

section \<open>gitSim: backdated commits, branch, pull request and review\<close>

text \<open>
  A shallow embedding of \<^verbatim>\<open>src/gitSim.py\<close>. The script is orchestration: every
  function acts on the outside world (the working directory, the git repository, the
  forge, the log, the random generator, the clock, the process environment). The
  embedding makes that world an explicit record that every function takes and returns,
  and makes every exception a value.
\<close>

subsection \<open>Strings\<close>

text \<open>
  Python's \<^verbatim>\<open>s.startswith(p)\<close>, \<^verbatim>\<open>s.endswith(p)\<close>, \<^verbatim>\<open>p in s\<close> (substring test on
  \<^verbatim>\<open>str\<close>) and \<^verbatim>\<open>s.strip()\<close>. A \<open>char\<close> stands for a code point below 256;
  \<^verbatim>\<open>str.isspace\<close> holds there for 9-13, 28-32, 133 and 160.
\<close>

definition newline :: string where
  "newline = [CHR 0x0A]"

definition startswith :: "string \<Rightarrow> string \<Rightarrow> bool" where
  "startswith s p = (take (length p) s = p)"

definition endswith :: "string \<Rightarrow> string \<Rightarrow> bool" where
  "endswith s p = (length p \<le> length s \<and> drop (length s - length p) s = p)"

fun py_in :: "string \<Rightarrow> string \<Rightarrow> bool" where
  "py_in p [] = (p = [])"
| "py_in p (c # cs) = (startswith (c # cs) p \<or> py_in p cs)"

definition py_isspace :: "char \<Rightarrow> bool" where
  "py_isspace c = (let n = of_char c :: nat in
     (9 \<le> n \<and> n \<le> 13) \<or> (28 \<le> n \<and> n \<le> 32) \<or> n = 133 \<or> n = 160)"

definition py_strip :: "string \<Rightarrow> string" where
  "py_strip s = rev (dropWhile py_isspace (rev (dropWhile py_isspace s)))"

text \<open>Decimal digits, as \<^verbatim>\<open>%02d\<close> and \<^verbatim>\<open>%04d\<close> print them, and \<^verbatim>\<open>str(n)\<close>.\<close>

definition digit :: "nat \<Rightarrow> char" where
  "digit k = ''0123456789'' ! (k mod 10)"

definition digits2 :: "nat \<Rightarrow> string" where
  "digits2 n = [digit (n div 10), digit n]"

definition digits4 :: "nat \<Rightarrow> string" where
  "digits4 n = [digit (n div 1000), digit (n div 100), digit (n div 10), digit n]"

fun str_nat :: "nat \<Rightarrow> string" where
  "str_nat n = (if n < 10 then [digit n] else str_nat (n div 10) @ [digit n])"

declare str_nat.simps [simp del]

subsection \<open>Errors\<close>

text \<open>
  The external commands the script runs through \<^verbatim>\<open>subprocess.run\<close>, by what they do;
  \<open>argv\<close> gives the argument vector the source writes.
\<close>

datatype git_cmd =
    GitInit
  | GitRemote
  | GitRemoteAdd string string
  | GitAdd string
  | GitCommit string
  | GitCheckoutNew string
  | GitPush string
  | GitConfigGetOriginUrl

fun argv :: "git_cmd \<Rightarrow> string list" where
  "argv GitInit = [''git'', ''init'']"
| "argv GitRemote = [''git'', ''remote'']"
| "argv (GitRemoteAdd name url) = [''git'', ''remote'', ''add'', name, url]"
| "argv (GitAdd path) = [''git'', ''add'', path]"
| "argv (GitCommit msg) = [''git'', ''commit'', ''-m'', msg]"
| "argv (GitCheckoutNew b) = [''git'', ''checkout'', ''-b'', b]"
| "argv (GitPush b) = [''git'', ''push'', ''--set-upstream'', ''origin'', b]"
| "argv GitConfigGetOriginUrl = [''git'', ''config'', ''--get'', ''remote.origin.url'']"

text \<open>The calls to the forge that PyGithub makes for the script.\<close>

datatype api_call =
    ApiGetRepo string string
  | ApiCreatePull string string string string
  | ApiCreateReview nat string string

text \<open>
  The exceptions the script can meet: \<^verbatim>\<open>subprocess.CalledProcessError\<close> (a command run
  with \<^verbatim>\<open>check=True\<close> exits non-zero), \<^verbatim>\<open>ValueError\<close> (\<^verbatim>\<open>random.randint\<close> on an
  empty range), \<^verbatim>\<open>OverflowError\<close> (a \<^verbatim>\<open>timedelta\<close> or a \<^verbatim>\<open>date\<close> out of range),
  \<^verbatim>\<open>SystemExit\<close> (\<^verbatim>\<open>sys.exit\<close> with its message), the forge library's exception, and
  \<^verbatim>\<open>OSError\<close> (\<^verbatim>\<open>open\<close> cannot open the file; FileNotFoundError, PermissionError and
  IsADirectoryError are its subclasses).
\<close>

datatype error =
    CalledProcessError git_cmd
  | ValueError
  | OverflowError
  | SystemExit string
  | GithubException api_call
  | OSError

subsection \<open>Dates and times (Python's datetime)\<close>

text \<open>
  A \<^verbatim>\<open>datetime.date\<close> is its proleptic Gregorian ordinal (1 is 0001-01-01, the largest
  is 9999-12-31). \<^verbatim>\<open>timedelta(days=n)\<close> raises OverflowError beyond 999999999 days;
  adding days to a date raises it when the result leaves the range of dates.
\<close>

definition MAXORDINAL :: int where
  "MAXORDINAL = 3652059"

definition timedelta :: "int \<Rightarrow> error + int" where
  "timedelta n = (if \<bar>n\<bar> \<le> 999999999 then Inr n else Inl OverflowError)"

definition date_add :: "int \<Rightarrow> int \<Rightarrow> error + int" where
  "date_add d n = (let ord = d + n in
     if 0 < ord \<and> ord \<le> MAXORDINAL then Inr ord else Inl OverflowError)"

definition date_plus_days :: "int \<Rightarrow> int \<Rightarrow> error + int" where
  "date_plus_days d n = (case timedelta n of Inl e \<Rightarrow> Inl e | Inr k \<Rightarrow> date_add d k)"

definition date_minus_days :: "int \<Rightarrow> int \<Rightarrow> error + int" where
  "date_minus_days d n = (case timedelta n of Inl e \<Rightarrow> Inl e | Inr k \<Rightarrow> date_add d (- k))"

text \<open>\<^verbatim>\<open>date.weekday()\<close>: Monday is 0, Saturday 5, Sunday 6.\<close>

definition weekday :: "int \<Rightarrow> int" where
  "weekday d = (d + 6) mod 7"

text \<open>The calendar date of an ordinal, as \<^verbatim>\<open>_ord2ymd\<close> of the datetime module computes it.\<close>

definition days_before_month :: "nat \<Rightarrow> nat" where
  "days_before_month m = [0, 0, 31, 59, 90, 120, 151, 181, 212, 243, 273, 304, 334] ! m"

definition days_in_month_tab :: "nat \<Rightarrow> nat" where
  "days_in_month_tab m = [0, 31, 28, 31, 30, 31, 30, 31, 31, 30, 31, 30, 31] ! m"

definition ord2ymd :: "int \<Rightarrow> nat \<times> nat \<times> nat" where
  "ord2ymd ord =
    (let n0 = nat (ord - 1);
         n400 = n0 div 146097; n1 = n0 mod 146097;
         n100 = n1 div 36524; n2 = n1 mod 36524;
         n4 = n2 div 1461; n3 = n2 mod 1461;
         ny = n3 div 365; n = n3 mod 365;
         year = n400 * 400 + 1 + n100 * 100 + n4 * 4 + ny
     in if ny = 4 \<or> n100 = 4 then (year - 1, 12, 31)
        else
          let leapyear = (ny = 3 \<and> (n4 \<noteq> 24 \<or> n100 = 3));
              month = (n + 50) div 32;
              preceding = days_before_month month + (if month > 2 \<and> leapyear then 1 else 0)
          in if preceding > n
             then (let month' = month - 1;
                       preceding' = preceding
                         - (days_in_month_tab month' + (if month' = 2 \<and> leapyear then 1 else 0))
                   in (year, month', n - preceding' + 1))
             else (year, month, n - preceding + 1))"

record datetime =
  dt_date :: int
  dt_hour :: int
  dt_minute :: int
  dt_second :: int

definition ymd_text :: "int \<Rightarrow> string" where
  "ymd_text d = (case ord2ymd d of (y, m, dd) \<Rightarrow> digits4 y @ ''-'' @ digits2 m @ ''-'' @ digits2 dd)"

definition hms_text :: "datetime \<Rightarrow> string" where
  "hms_text t = digits2 (nat (dt_hour t)) @ '':'' @ digits2 (nat (dt_minute t)) @ '':''
     @ digits2 (nat (dt_second t))"

text \<open>
  \<^verbatim>\<open>str(t)\<close> (the f-string's rendering: ISO format with a space), \<^verbatim>\<open>t.isoformat()\<close>,
  \<^verbatim>\<open>t.strftime('%Y-%m-%d %H:%M:%S')\<close> and \<^verbatim>\<open>t.strftime('%Y%m%d_%H%M%S')\<close>, for a
  datetime with no microseconds and no time zone. \<^verbatim>\<open>str\<close> and \<^verbatim>\<open>isoformat\<close> print the
  year with four digits. \<^verbatim>\<open>strftime\<close> leaves \<^verbatim>\<open>%Y\<close> to the C library, which prints the
  year as a plain decimal number: four digits from the year 1000 on, fewer before
  (\<^verbatim>\<open>1-01-01 17:24:31\<close> for the first day of the calendar).
\<close>

definition str_datetime :: "datetime \<Rightarrow> string" where
  "str_datetime t = ymd_text (dt_date t) @ '' '' @ hms_text t"

definition isoformat :: "datetime \<Rightarrow> string" where
  "isoformat t = ymd_text (dt_date t) @ ''T'' @ hms_text t"

definition strftime_ymd_hms :: "datetime \<Rightarrow> string" where
  "strftime_ymd_hms t = (case ord2ymd (dt_date t) of (y, m, dd) \<Rightarrow>
     str_nat y @ ''-'' @ digits2 m @ ''-'' @ digits2 dd) @ '' '' @ hms_text t"


subsection \<open>The world the script acts on\<close>

text \<open>
  The command-line arguments that \<^verbatim>\<open>parse_args\<close> returns (argparse's \<^verbatim>\<open>type=int\<close> gives
  unbounded integers; \<^verbatim>\<open>--repository\<close> is \<^verbatim>\<open>None\<close> when absent).
\<close>

record args =
  repository :: "string option"
  max_commits :: int
  frequency :: int
  no_weekends :: bool
  days_before :: int
  days_after :: int
  "file" :: string

text \<open>
  A commit as git records it: the author and committer dates are what git reads from
  \<^verbatim>\<open>GIT_AUTHOR_DATE\<close> and \<^verbatim>\<open>GIT_COMMITTER_DATE\<close> in the command's environment, as ISO
  text (\<open>None\<close>: the variable is not set there and git reads its own clock).
\<close>

record commit =
  author_date :: "string option"
  committer_date :: "string option"
  message :: string

record pull =
  pr_number :: nat
  pr_repo :: string
  pr_title :: string
  pr_body :: string
  pr_head :: string
  pr_base :: string

record review =
  rv_pull :: nat
  rv_body :: string
  rv_event :: string

text \<open>
  Every invocation of an external collaborator is recorded in a trace: a git command with
  the environment entries the script adds to its copy of \<^verbatim>\<open>os.environ\<close>, or a forge call.
\<close>

datatype call = Git git_cmd "(string \<times> string) list" | Api api_call

text \<open>
  A line of \<^verbatim>\<open>contribute.log\<close>: the level, the text, and for \<^verbatim>\<open>logging.error(f"...{e}")\<close>
  the exception whose rendering ends the line.
\<close>

datatype log_entry = Info string | Error string "error option"

text \<open>
  The world: the working directory (\<open>git_dir\<close>: \<^verbatim>\<open>.git\<close> exists; \<open>files\<close>: text files by
  path), the repository (remotes in the order \<^verbatim>\<open>git remote\<close> lists them, commits oldest
  first, branches, the branches pushed to origin), the forge (pull requests, reviews), the
  log, the trace of external calls, and the inputs the script does not control:
  \<open>faults\<close> says which external calls fail for reasons of their own (by position in the
  trace), \<open>tape\<close> is the raw output of the random generator with \<open>drawn\<close> the number of
  draws made, \<open>today\<close> is \<^verbatim>\<open>date.today()\<close>, \<open>now\<close> is \<^verbatim>\<open>datetime.now()\<close> when the
  branch is named, \<open>github_token\<close> is \<^verbatim>\<open>os.getenv("GITHUB_TOKEN")\<close>,
  \<open>unwritable\<close> says which paths \<^verbatim>\<open>open\<close> cannot open for writing (the directory is
  missing, the permission is, the path is a directory), and \<open>git_reads\<close> is how git
  reads a date given in its environment (\<open>None\<close>: it rejects the date and the command
  fails). Git reads an ISO date of the years 1970 to 2099 as it is written; it takes
  others for something else (\<^verbatim>\<open>0001-01-01\<close> for a day of 2001) or rejects them, in ways
  that depend on its version, which is why the reading is an input.
  Writing the log always succeeds and the \<^verbatim>\<open>git\<close> executable is there.
\<close>

record world =
  git_dir :: bool
  files :: "string \<rightharpoonup> string"
  remotes :: "(string \<times> string) list"
  commits :: "commit list"
  branches :: "string list"
  current_branch :: string
  pushed :: "string list"
  pulls :: "pull list"
  reviews :: "review list"
  log :: "log_entry list"
  trace :: "call list"
  faults :: "nat \<Rightarrow> bool"
  tape :: "nat \<Rightarrow> nat"
  drawn :: nat
  today :: int
  now :: datetime
  github_token :: "string option"
  unwritable :: "string \<Rightarrow> bool"
  git_reads :: "string \<Rightarrow> string option"

subsection \<open>Programs: state and exceptions\<close>

text \<open>
  A program takes the world and returns the new world with either its result or the
  exception it raised. \<open>except_CalledProcessError\<close> is
  \<^verbatim>\<open>try: ... except subprocess.CalledProcessError as e:\<close>, \<open>except_Exception\<close> is
  \<^verbatim>\<open>try: ... except Exception as e:\<close> (which does not catch \<^verbatim>\<open>SystemExit\<close>).
\<close>

type_synonym 'a prog = "world \<Rightarrow> (error + 'a) \<times> world"

definition ret :: "'a \<Rightarrow> 'a prog" where
  "ret x = (\<lambda>w. (Inr x, w))"


definition bind :: "'a prog \<Rightarrow> ('a \<Rightarrow> 'b prog) \<Rightarrow> 'b prog" where
  "bind m f = (\<lambda>w. case m w of (Inl e, w1) \<Rightarrow> (Inl e, w1) | (Inr x, w1) \<Rightarrow> f x w1)"

definition lift :: "error + 'a \<Rightarrow> 'a prog" where
  "lift r = (\<lambda>w. (r, w))"


definition except_Exception :: "'a prog \<Rightarrow> (error \<Rightarrow> 'a prog) \<Rightarrow> 'a prog" where
  "except_Exception m h = (\<lambda>w. case m w of
       (Inl (SystemExit msg), w1) \<Rightarrow> (Inl (SystemExit msg), w1)
     | (Inl e, w1) \<Rightarrow> h e w1
     | r \<Rightarrow> r)"

definition logging_info :: "string \<Rightarrow> unit prog" where
  "logging_info msg = (\<lambda>w. (Inr (), w\<lparr>log := log w @ [Info msg]\<rparr>))"

definition logging_error :: "string \<Rightarrow> error option \<Rightarrow> unit prog" where
  "logging_error msg e = (\<lambda>w. (Inr (), w\<lparr>log := log w @ [Error msg e]\<rparr>))"


subsection \<open>The random generator\<close>

text \<open>
  \<^verbatim>\<open>random.randint(a, b)\<close> raises ValueError on an empty range and otherwise returns an
  integer of \<open>[a, b]\<close>; \<^verbatim>\<open>random.choice(seq)\<close> returns the element at a random index.
  Each consumes one entry of the tape, reduced to the size of the range.
\<close>

definition randint :: "int \<Rightarrow> int \<Rightarrow> int prog" where
  "randint a b = (\<lambda>w.
     if b < a then (Inl ValueError, w)
     else (Inr (a + int (tape w (drawn w) mod nat (b - a + 1))), w\<lparr>drawn := Suc (drawn w)\<rparr>))"

definition choice :: "'a list \<Rightarrow> 'a prog" where
  "choice seq = (\<lambda>w. (Inr (seq ! (tape w (drawn w) mod length seq)), w\<lparr>drawn := Suc (drawn w)\<rparr>))"

subsection \<open>The external collaborators: git and the forge\<close>

text \<open>
  What a git command does when it runs: whether it exits with status 0, what it prints,
  and the repository afterwards. \<^verbatim>\<open>git remote add\<close> refuses a name that is taken,
  \<^verbatim>\<open>git add\<close> a path that does not exist, \<^verbatim>\<open>git checkout -b\<close> a branch that exists,
  \<^verbatim>\<open>git push\<close> needs the remote, the branch and a commit for the branch to point to (in
  a repository without any commit the branch is unborn and git finds nothing to push),
  \<^verbatim>\<open>git config --get\<close> exits non-zero when the key is not set. The index is not modelled:
  \<^verbatim>\<open>git commit\<close> records a commit with the message and the dates it reads from its
  environment, and fails when it rejects one of them. The history is one line of commits,
  shared by the branches.
\<close>

definition read_date :: "world \<Rightarrow> (string \<times> string) list \<Rightarrow> string \<Rightarrow> string option option" where
  "read_date w env var = (case map_of env var of
       None \<Rightarrow> Some None
     | Some s \<Rightarrow> map_option Some (git_reads w s))"

fun git_effect :: "git_cmd \<Rightarrow> (string \<times> string) list \<Rightarrow> world \<Rightarrow> (bool \<times> string) \<times> world" where
  "git_effect GitInit env w = ((True, []), w\<lparr>git_dir := True\<rparr>)"
| "git_effect GitRemote env w = ((True, concat (map (\<lambda>r. fst r @ newline) (remotes w))), w)"
| "git_effect (GitRemoteAdd name url) env w =
     (if map_of (remotes w) name \<noteq> None then ((False, []), w)
      else ((True, []), w\<lparr>remotes := remotes w @ [(name, url)]\<rparr>))"
| "git_effect (GitAdd path) env w = ((files w path \<noteq> None, []), w)"
| "git_effect (GitCommit msg) env w =
     (case (read_date w env ''GIT_AUTHOR_DATE'', read_date w env ''GIT_COMMITTER_DATE'') of
        (Some ad, Some cd) \<Rightarrow>
          ((True, []), w\<lparr>commits := commits w @
             [\<lparr>author_date = ad, committer_date = cd, message = msg\<rparr>]\<rparr>)
      | _ \<Rightarrow> ((False, []), w))"
| "git_effect (GitCheckoutNew b) env w =
     (if b \<in> set (branches w) then ((False, []), w)
      else ((True, []), w\<lparr>branches := branches w @ [b], current_branch := b\<rparr>))"
| "git_effect (GitPush b) env w =
     (if map_of (remotes w) ''origin'' = None \<or> b \<notin> set (branches w) \<or> commits w = []
      then ((False, []), w)
      else ((True, []), w\<lparr>pushed := pushed w @ [b]\<rparr>))"
| "git_effect GitConfigGetOriginUrl env w =
     (case map_of (remotes w) ''origin'' of
        None \<Rightarrow> ((False, []), w)
      | Some url \<Rightarrow> ((True, url @ newline), w))"

text \<open>
  \<^verbatim>\<open>subprocess.run(argv, env=env, capture_output=True, text=True)\<close>: the call enters the
  trace; it fails when the world says so (exit status non-zero, nothing printed, nothing
  changed) and otherwise does what the command does. \<open>run_checked\<close> is the same with
  \<^verbatim>\<open>check=True\<close>: a non-zero exit raises CalledProcessError; its result is the output.
\<close>

definition run :: "git_cmd \<Rightarrow> (string \<times> string) list \<Rightarrow> world \<Rightarrow> (bool \<times> string) \<times> world" where
  "run c env w =
     (let w1 = w\<lparr>trace := trace w @ [Git c env]\<rparr>
      in if faults w (length (trace w)) then ((False, []), w1) else git_effect c env w1)"

definition run_checked :: "git_cmd \<Rightarrow> (string \<times> string) list \<Rightarrow> string prog" where
  "run_checked c env = (\<lambda>w. case run c env w of
       ((True, out), w1) \<Rightarrow> (Inr out, w1)
     | ((False, out), w1) \<Rightarrow> (Inl (CalledProcessError c), w1))"

text \<open>
  The forge, through PyGithub: \<^verbatim>\<open>g.get_repo(name)\<close>, \<^verbatim>\<open>repo.create_pull(...)\<close> and
  \<^verbatim>\<open>pr.create_review(...)\<close>. A call that fails raises the library's exception and changes
  nothing. A pull request gets the next free number.
\<close>

definition api :: "api_call \<Rightarrow> 'a \<Rightarrow> (world \<Rightarrow> world) \<Rightarrow> 'a prog" where
  "api c result effect = (\<lambda>w.
     let w1 = w\<lparr>trace := trace w @ [Api c]\<rparr>
     in if faults w (length (trace w)) then (Inl (GithubException c), w1)
        else (Inr result, effect w1))"



definition create_review :: "pull \<Rightarrow> string \<Rightarrow> string \<Rightarrow> unit prog" where
  "create_review pr body event =
     api (ApiCreateReview (pr_number pr) body event) ()
       (\<lambda>w1. w1\<lparr>reviews := reviews w1 @
          [\<lparr>rv_pull = pr_number pr, rv_body = body, rv_event = event\<rparr>]\<rparr>)"

subsection \<open>The script\<close>

text \<open>\<^verbatim>\<open>init_repo\<close> (lines 43-49).\<close>

definition init_repo :: "unit prog" where
  "init_repo = (\<lambda>w.
     if \<not> git_dir w then
       bind (run_checked GitInit [])
         (\<lambda>_. logging_info ''Initialized a new git repository.'') w
     else logging_info ''Git repository already initialized.'' w)"

text \<open>
  \<^verbatim>\<open>set_remote\<close> (lines 51-58). \<^verbatim>\<open>git remote\<close> runs without \<^verbatim>\<open>check\<close>; the test
  \<^verbatim>\<open>"origin" not in result.stdout\<close> is a substring test on the whole output.
\<close>

definition set_remote :: "string \<Rightarrow> unit prog" where
  "set_remote remote_url = (\<lambda>w.
     case run GitRemote [] w of
       ((ok, stdout), w1) \<Rightarrow>
         if \<not> py_in ''origin'' stdout then
           bind (run_checked (GitRemoteAdd ''origin'' remote_url) [])
             (\<lambda>_. logging_info (''Set remote origin to '' @ remote_url @ ''.'')) w1
         else logging_info ''Remote origin already set.'' w1)"

text \<open>
  \<^verbatim>\<open>simulate_commits\<close> (lines 60-105), inside out. \<open>write_file\<close> is
  \<^verbatim>\<open>with open(path, "w") as f: f.write(text)\<close> and \<open>append_file\<close> is
  \<^verbatim>\<open>with open(path, "a") as f: f.write(text)\<close>; \<^verbatim>\<open>open\<close> raises when the path cannot be
  opened.
\<close>

definition write_file :: "string \<Rightarrow> string \<Rightarrow> unit prog" where
  "write_file path text = (\<lambda>w.
     if unwritable w path then (Inl OSError, w)
     else (Inr (), w\<lparr>files := (files w)(path \<mapsto> text)\<rparr>))"

definition append_file :: "string \<Rightarrow> string \<Rightarrow> unit prog" where
  "append_file path text = (\<lambda>w.
     if unwritable w path then (Inl OSError, w)
     else (Inr (), w\<lparr>files := (files w)(path \<mapsto> (case files w path of None \<Rightarrow> [] | Some c \<Rightarrow> c) @ text)\<rparr>))"

text \<open>
  The body of the \<^verbatim>\<open>for\<close> loop (lines 89-104): one commit at a random time of the day.
  \<open>commit_event\<close> is what it does once \<^verbatim>\<open>commit_time\<close> is drawn (lines 94-104).
\<close>

definition commit_event :: "args \<Rightarrow> datetime \<Rightarrow> unit prog" where
  "commit_event a commit_time =
     bind (append_file (file a) (''Update at '' @ str_datetime commit_time @ newline)) (\<lambda>_.
       let iso_date = isoformat commit_time;
           env = [(''GIT_AUTHOR_DATE'', iso_date), (''GIT_COMMITTER_DATE'', iso_date)]
       in bind (run_checked (GitAdd (file a)) env) (\<lambda>_.
       let commit_msg = ''Automated commit on '' @ strftime_ymd_hms commit_time
       in bind (run_checked (GitCommit commit_msg) env) (\<lambda>_.
          logging_info (''Committed: '' @ commit_msg))))"

definition commit_once :: "args \<Rightarrow> int \<Rightarrow> unit prog" where
  "commit_once a current_date =
     bind (randint 0 23) (\<lambda>h.
     bind (randint 0 59) (\<lambda>m.
     bind (randint 0 59) (\<lambda>s.
       commit_event a \<lparr>dt_date = current_date, dt_hour = h, dt_minute = m, dt_second = s\<rparr>)))"

text \<open>\<^verbatim>\<open>for _ in range(num_commits)\<close> (line 88).\<close>

primrec for_range :: "nat \<Rightarrow> unit prog \<Rightarrow> unit prog" where
  "for_range 0 body = ret ()"
| "for_range (Suc n) body = bind body (\<lambda>_. for_range n body)"

text \<open>
  One walked day (lines 85-104): the activation draw, then the commit-count draw and
  the commits. \<^verbatim>\<open>range(n)\<close> is empty for \<open>n \<le> 0\<close>.
\<close>

definition day_commits :: "args \<Rightarrow> int \<Rightarrow> unit prog" where
  "day_commits a current_date =
     bind (randint 1 100) (\<lambda>r.
       if r \<le> frequency a then
         bind (randint 1 (max_commits a)) (\<lambda>num_commits.
           for_range (nat num_commits) (commit_once a current_date))
       else ret ())"

text \<open>
  The \<^verbatim>\<open>while\<close> loop (lines 78-105). \<^verbatim>\<open>current_date += timedelta(days=1)\<close> can leave the
  range of dates.
\<close>

function while_dates :: "args \<Rightarrow> int \<Rightarrow> int \<Rightarrow> unit prog" where
  "while_dates a current_date end_date w =
     (if current_date \<le> end_date then
        if no_weekends a \<and> weekday current_date \<ge> 5 then
          (case date_add current_date 1 of
             Inl e \<Rightarrow> (Inl e, w)
           | Inr next_date \<Rightarrow> while_dates a next_date end_date w)
        else
          (case day_commits a current_date w of
             (Inl e, w1) \<Rightarrow> (Inl e, w1)
           | (Inr u, w1) \<Rightarrow>
               (case date_add current_date 1 of
                  Inl e \<Rightarrow> (Inl e, w1)
                | Inr next_date \<Rightarrow> while_dates a next_date end_date w1))
      else (Inr (), w))"
  by pat_completeness auto
termination
  by (relation "measure (\<lambda>(a, current_date, end_date, w). nat (end_date - current_date + 1))")
     (auto simp: date_add_def Let_def split: if_splits)

declare while_dates.simps [simp del]

text \<open>
  \<^verbatim>\<open>simulate_commits\<close> itself: the activity file is created with its header line when it
  does not exist (lines 65-72, \<open>open_activity_file\<close>), the range is computed from
  today's date (lines 74-76), and the loop runs.
\<close>

definition open_activity_file :: "string \<Rightarrow> unit prog" where
  "open_activity_file file_path = (\<lambda>w.
     if files w file_path = None
     then bind (write_file file_path (''Activity Log'' @ newline))
            (\<lambda>_. logging_info (''Created file '' @ file_path @ ''.'')) w
     else logging_info (''Using existing file '' @ file_path @ ''.'') w)"

definition simulate_commits :: "args \<Rightarrow> unit prog" where
  "simulate_commits a =
     (let file_path = file a in
      bind (open_activity_file file_path) (\<lambda>_.
      bind (\<lambda>w. (Inr (today w), w)) (\<lambda>today_date.
      bind (lift (date_minus_days today_date (days_before a))) (\<lambda>start_date.
      bind (lift (date_plus_days today_date (days_after a))) (\<lambda>end_date.
        while_dates a start_date end_date)))))"

text \<open>\<^verbatim>\<open>get_github_repo_name_from_remote\<close> (lines 107-127).\<close>

definition get_github_repo_name_from_remote :: "string option prog" where
  "get_github_repo_name_from_remote =
     except_Exception
       (bind (run_checked GitConfigGetOriginUrl []) (\<lambda>stdout.
          let remote_url = py_strip stdout;
              remote_url =
                (if startswith remote_url ''git@github.com:''
                 then drop (length ''git@github.com:'') remote_url
                 else if startswith remote_url ''https://github.com/''
                 then drop (length ''https://github.com/'') remote_url
                 else remote_url);
              remote_url =
                (if endswith remote_url ''.git''
                 then take (length remote_url - length ''.git'') remote_url
                 else remote_url)
          in bind (logging_info (''Determined GitHub repo name: '' @ remote_url)) (\<lambda>_.
             ret (Some remote_url))))
       (\<lambda>e. bind (logging_error ''Error getting GitHub repo name: '' (Some e)) (\<lambda>_. ret None))"




text \<open>\<^verbatim>\<open>simulate_code_review\<close> (lines 163-184) and its two messages.\<close>

definition review_issues :: string where
  "review_issues = ''Automated review:'' @ newline
     @ ''- Found minor style issues in the diff.'' @ newline
     @ ''- Consider refactoring for better clarity.'' @ newline
     @ ''Note: This is a self-review comment; please address these issues.''"

definition review_clean :: string where
  "review_clean = ''Automated review: Everything looks good. (Self-review comment)''"

definition simulate_code_review :: "pull \<Rightarrow> unit prog" where
  "simulate_code_review pr =
     except_Exception
       (bind (choice [True, False]) (\<lambda>simulated_issues.
          let review_message = (if simulated_issues then review_issues else review_clean)
          in bind (create_review pr review_message ''COMMENT'') (\<lambda>_.
             logging_info ''Simulated code review: posted comment.'')))
       (\<lambda>e. logging_error ''Error simulating code review: '' (Some e))"


subsection \<open>Vocabulary of the properties\<close>










definition drawn_event :: "int \<Rightarrow> world \<Rightarrow> datetime" where
  "drawn_event d w = \<lparr>dt_date = d, dt_hour = int (tape w (drawn w) mod 24),
     dt_minute = int (tape w (Suc (drawn w)) mod 60),
     dt_second = int (tape w (Suc (Suc (drawn w))) mod 60)\<rparr>"







text \<open>The calls of a trace that go to the forge.\<close>

fun is_api :: "call \<Rightarrow> bool" where
  "is_api (Api c) = True"
| "is_api (Git c env) = False"

text \<open>
  What the commit loop leaves alone: the inputs the script does not control, the
  repository apart from its commits, and the forge, to which it makes no call.
\<close>

definition untouched :: "world \<Rightarrow> world \<Rightarrow> bool" where
  "untouched w w' =
     (faults w' = faults w \<and> tape w' = tape w \<and> today w' = today w \<and> now w' = now w
      \<and> github_token w' = github_token w \<and> git_dir w' = git_dir w \<and> remotes w' = remotes w
      \<and> branches w' = branches w \<and> current_branch w' = current_branch w
      \<and> pushed w' = pushed w \<and> pulls w' = pulls w \<and> reviews w' = reviews w
      \<and> unwritable w' = unwritable w \<and> git_reads w' = git_reads w
      \<and> filter is_api (trace w') = filter is_api (trace w))"






text \<open>
  The date range walker as the specification words it: the dates from the first to the
  last in ascending order, without the weekend days when weekends are skipped, and the
  day's work done for each in turn.
\<close>

definition walked_dates :: "args \<Rightarrow> int \<Rightarrow> int \<Rightarrow> int list" where
  "walked_dates a start_date end_date =
     filter (\<lambda>d. \<not> (no_weekends a \<and> weekday d \<ge> 5)) [start_date..end_date]"

primrec for_each :: "int list \<Rightarrow> (int \<Rightarrow> unit prog) \<Rightarrow> unit prog" where
  "for_each [] f = ret ()"
| "for_each (d # ds) f = bind (f d) (\<lambda>_. for_each ds f)"





text \<open>The state of the repository proper: what \<^verbatim>\<open>git\<close> keeps under \<^verbatim>\<open>.git\<close>.\<close>

definition repo_state ::
  "world \<Rightarrow> bool \<times> (string \<times> string) list \<times> commit list \<times> string list \<times> string \<times> string list" where
  "repo_state w = (git_dir w, remotes w, commits w, branches w, current_branch w, pushed w)"

text \<open>What \<^verbatim>\<open>git remote\<close> prints in a world: nothing when the call fails.\<close>

definition remote_listing :: "world \<Rightarrow> string" where
  "remote_listing w = (if faults w (length (trace w)) then []
     else concat (map (\<lambda>r. fst r @ newline) (remotes w)))"

text \<open>A name with its trailing \<^verbatim>\<open>.git\<close> removed, when it has one.\<close>

definition strip_git_suffix :: "string \<Rightarrow> string" where
  "strip_git_suffix s = (if endswith s ''.git'' then take (length s - length ''.git'') s else s)"



subsection \<open>Example runs\<close>

text \<open>
  A working directory that is already a repository with no remote, on Monday 2024-01-01
  (ordinal 738886), with no failing call, no token, every path writable and a git that
  reads the dates of the years 2000 to 2099 as they are written and rejects the others;
  and arguments for one day, every day active, at most two commits a day, no remote.
\<close>

definition reads_this_century :: "string \<Rightarrow> string option" where
  "reads_this_century s = (if take 2 s = ''20'' then Some s else None)"

definition example_world :: world where
  "example_world = \<lparr>git_dir = True, files = Map.empty, remotes = [], commits = [],
     branches = [''main''], current_branch = ''main'', pushed = [], pulls = [], reviews = [],
     log = [], trace = [], faults = (\<lambda>n. False), tape = (\<lambda>n. 7 * n + 3), drawn = 0,
     today = 738886,
     now = \<lparr>dt_date = 738886, dt_hour = 12, dt_minute = 0, dt_second = 1\<rparr>,
     github_token = None, unwritable = (\<lambda>p. False), git_reads = reads_this_century\<rparr>"

definition example_args :: args where
  "example_args = \<lparr>repository = None, max_commits = 2, frequency = 100, no_weekends = False,
     days_before = 0, days_after = 0, file = ''activity.txt''\<rparr>"

text \<open>
  The same on Sunday 2023-12-31 (ordinal 738885), walking Friday, Saturday and Sunday
  with weekends skipped.
\<close>

definition weekend_world :: world where
  "weekend_world = example_world\<lparr>today := 738885\<rparr>"

definition weekend_args :: args where
  "weekend_args = example_args\<lparr>no_weekends := True, days_before := 2\<rparr>"

text \<open>
  A pull request to review, a world whose next forge call fails, a world whose coin
  falls on the other side, and a repository whose origin is not on GitHub.
\<close>

definition example_pull :: pull where
  "example_pull = \<lparr>pr_number = 7, pr_repo = ''user/repo'',
     pr_title = ''Automated Pull Request: Bot Update'',
     pr_body = ''This pull request was created automatically by the bot.'',
     pr_head = ''auto_pr_20240101_120001'', pr_base = ''main''\<rparr>"

definition failing_world :: world where
  "failing_world = example_world\<lparr>faults := (\<lambda>n. n = 0)\<rparr>"

definition even_world :: world where
  "even_world = example_world\<lparr>tape := (\<lambda>n. 2 * n)\<rparr>"

definition gitlab_world :: world where
  "gitlab_world = example_world\<lparr>remotes := [(''origin'', ''git@gitlab.com:user/repo.git'')]\<rparr>"

definition github_world :: world where
  "github_world = example_world\<lparr>remotes := [(''origin'', ''git@github.com:user/repo.git'')]\<rparr>"

text \<open>
  A repository whose only remote is named \<^verbatim>\<open>my-origin\<close>, and arguments that name the
  remote to configure.
\<close>

definition fork_world :: world where
  "fork_world = example_world\<lparr>remotes := [(''my-origin'', ''git@github.com:me/fork.git'')]\<rparr>"














section \<open>Properties\<close>

subsection \<open>The commit loop, step by step\<close>





lemma dt_date_drawn_event [simp]: "dt_date (drawn_event d w) = d"
  by (simp add: drawn_event_def)

lemma untouched_drawn [simp]: "untouched w (w\<lparr>drawn := n\<rparr>)" "untouched (w\<lparr>drawn := n\<rparr>) w"
  by (simp_all add: untouched_def)

lemma untouched_refl [simp]: "untouched w w"
  by (simp add: untouched_def)












lemma while_dates_done: "\<not> s \<le> en \<Longrightarrow> while_dates a s en w = (Inr (), w)"
  by (subst while_dates.simps) simp

lemma while_dates_skip:
  "s \<le> en \<Longrightarrow> no_weekends a \<and> weekday s \<ge> 5 \<Longrightarrow>
   while_dates a s en w =
     (case date_add s 1 of Inl e \<Rightarrow> (Inl e, w) | Inr nxt \<Rightarrow> while_dates a nxt en w)"
  by (subst while_dates.simps) simp

lemma while_dates_day:
  "s \<le> en \<Longrightarrow> \<not> (no_weekends a \<and> weekday s \<ge> 5) \<Longrightarrow>
   while_dates a s en w =
     (case day_commits a s w of
        (Inl e, w1) \<Rightarrow> (Inl e, w1)
      | (Inr u, w1) \<Rightarrow>
          (case date_add s 1 of Inl e \<Rightarrow> (Inl e, w1) | Inr nxt \<Rightarrow> while_dates a nxt en w1))"
  by (subst while_dates.simps) auto


subsection \<open>The whole of simulate_commits\<close>

lemma open_activity_file_eval:
  "open_activity_file p w =
     (if files w p = None then
        if unwritable w p then (Inl OSError, w)
        else (Inr (), w\<lparr>files := (files w)(p \<mapsto> ''Activity Log'' @ newline),
                log := log w @ [Info (''Created file '' @ p @ ''.'')]\<rparr>)
      else (Inr (), w\<lparr>log := log w @ [Info (''Using existing file '' @ p @ ''.'')]\<rparr>))"
  by (simp add: open_activity_file_def write_file_def bind_def logging_info_def)

lemma simulate_commits_eval:
  "simulate_commits a w =
    (if files w (file a) = None \<and> unwritable w (file a) then (Inl OSError, w)
     else
       let w0 = (if files w (file a) = None
                 then w\<lparr>files := (files w)(file a \<mapsto> ''Activity Log'' @ newline),
                        log := log w @ [Info (''Created file '' @ file a @ ''.'')]\<rparr>
                 else w\<lparr>log := log w @ [Info (''Using existing file '' @ file a @ ''.'')]\<rparr>)
       in case date_minus_days (today w) (days_before a) of
            Inl e \<Rightarrow> (Inl e, w0)
          | Inr s \<Rightarrow>
             (case date_plus_days (today w) (days_after a) of
                Inl e \<Rightarrow> (Inl e, w0)
              | Inr en \<Rightarrow> while_dates a s en w0))"
  by (auto simp: simulate_commits_def open_activity_file_eval bind_def lift_def
      Let_def split: sum.splits)

text \<open>
  From the year 1000 on \<^verbatim>\<open>strftime\<close> prints the year with four digits, as \<^verbatim>\<open>str\<close> does.
\<close>

lemma str_nat_digits4: "1000 \<le> n \<Longrightarrow> n \<le> 9999 \<Longrightarrow> str_nat n = digits4 n"
proof -
  assume lo: "1000 \<le> n" and hi: "n \<le> 9999"
  have d1: "n div 10 div 10 = n div 100" and d2: "n div 100 div 10 = n div 1000"
    by (simp_all add: div_mult2_eq[symmetric])
  have a: "str_nat n = str_nat (n div 10) @ [digit n]"
    using lo by (subst str_nat.simps) simp
  have b: "str_nat (n div 10) = str_nat (n div 100) @ [digit (n div 10)]"
    using lo by (subst str_nat.simps) (simp add: d1)
  have c: "str_nat (n div 100) = str_nat (n div 1000) @ [digit (n div 100)]"
    using lo by (subst str_nat.simps) (simp add: d2)
  have d: "str_nat (n div 1000) = [digit (n div 1000)]"
    using hi by (subst str_nat.simps) simp
  show ?thesis by (simp add: a b c d digits4_def)
qed

lemma strftime_four_digits:
  "1000 \<le> fst (ord2ymd (dt_date e)) \<Longrightarrow> fst (ord2ymd (dt_date e)) \<le> 9999 \<Longrightarrow>
   strftime_ymd_hms e = str_datetime e"
  by (cases "ord2ymd (dt_date e)")
     (simp add: strftime_ymd_hms_def str_datetime_def ymd_text_def str_nat_digits4)





subsection \<open>Weekends\<close>

lemma date_add_Suc: "0 \<le> d \<Longrightarrow> d < MAXORDINAL \<Longrightarrow> date_add d 1 = Inr (d + 1)"
  by (simp add: date_add_def Let_def)



subsection \<open>The phases of main\<close>



subsection \<open>The walked dates\<close>

text \<open>
  The loop is the day's work done for each walked date in turn, as long as the day after
  the last one is still a date.
\<close>

lemma while_dates_for_each:
  "0 \<le> s \<Longrightarrow> en < MAXORDINAL \<Longrightarrow>
   while_dates a s en w = for_each (walked_dates a s en) (day_commits a) w"
proof (induction a s en w rule: while_dates.induct)
  case (1 a s en w)
  show ?case
  proof (cases "s \<le> en")
    case False
    then show ?thesis by (simp add: while_dates_done walked_dates_def ret_def)
  next
    case le: True
    then have nxt: "date_add s 1 = Inr (s + 1)"
      using "1.prems" by (simp add: date_add_Suc)
    have up: "[s..en] = s # [s + 1..en]" using le by (rule upto_rec1)
    show ?thesis
    proof (cases "no_weekends a \<and> weekday s \<ge> 5")
      case skip: True
      have "while_dates a s en w = while_dates a (s + 1) en w"
        using le skip nxt by (simp add: while_dates_skip)
      also have "\<dots> = for_each (walked_dates a (s + 1) en) (day_commits a) w"
        using "1.IH"(1)[OF le skip nxt] "1.prems" by simp
      also have "walked_dates a (s + 1) en = walked_dates a s en"
        using skip by (simp add: walked_dates_def up)
      finally show ?thesis .
    next
      case noskip: False
      have wd: "walked_dates a s en = s # walked_dates a (s + 1) en"
        using noskip by (auto simp: walked_dates_def up)
      obtain r w1 where day: "day_commits a s w = (r, w1)" by force
      show ?thesis
      proof (cases r)
        case (Inl e)
        with day show ?thesis
          by (simp add: while_dates_day[OF le noskip] wd bind_def)
      next
        case (Inr u)
        then have r: "r = Inr ()" by simp
        have "while_dates a s en w = while_dates a (s + 1) en w1"
          using day r nxt by (simp add: while_dates_day[OF le noskip])
        also have "\<dots> = for_each (walked_dates a (s + 1) en) (day_commits a) w1"
          using "1.IH"(2)[OF le noskip day[symmetric] r nxt] "1.prems" by simp
        finally show ?thesis using day r by (simp add: wd bind_def)
      qed
    qed
  qed
qed

lemma simulate_commits_walk:
  assumes s: "s = today w - days_before a" and en: "en = today w + days_after a"
      and db: "\<bar>days_before a\<bar> \<le> 999999999" and da: "\<bar>days_after a\<bar> \<le> 999999999"
      and s_date: "0 < s" "s \<le> MAXORDINAL"
      and en_date: "0 < en" "en < MAXORDINAL"
  shows "simulate_commits a w
           = bind (open_activity_file (file a))
               (\<lambda>_. for_each (walked_dates a s en) (day_commits a)) w"
proof -
  have start: "date_minus_days (today w) (days_before a) = Inr s"
    using s db s_date by (simp add: date_minus_days_def timedelta_def date_add_def Let_def)
  have "en \<le> MAXORDINAL" using en_date by simp
  then have stop: "date_plus_days (today w) (days_after a) = Inr en"
    using en da en_date by (simp add: date_plus_days_def timedelta_def date_add_def Let_def)
  have loop: "while_dates a s en = for_each (walked_dates a s en) (day_commits a)"
    using s_date en_date by (intro ext while_dates_for_each) simp_all
  show ?thesis
    by (simp add: simulate_commits_eval Let_def start stop loop open_activity_file_eval
        bind_def)
qed

text \<open>
  Claim C6. When the two ends of the range are dates (and the end is not the last date
  there is), \<^verbatim>\<open>simulate_commits\<close> opens the activity file and then does the day's work
  for each walked date in turn, where the walked dates are the dates from
  \<open>today - days_before\<close> to \<open>today + days_after\<close> inclusive, strictly ascending (so
  each once), without the weekend days when weekends are skipped; with both offsets 0
  and weekends not skipped the walked dates are today alone.
\<close>

theorem date_range_walk:
  assumes s: "s = today w - days_before a" and en: "en = today w + days_after a"
      and db: "\<bar>days_before a\<bar> \<le> 999999999" and da: "\<bar>days_after a\<bar> \<le> 999999999"
      and s_date: "0 < s" "s \<le> MAXORDINAL"
      and en_date: "0 < en" "en < MAXORDINAL"
  shows "simulate_commits a w
           = bind (open_activity_file (file a))
               (\<lambda>_. for_each (walked_dates a s en) (day_commits a)) w
       \<and> sorted_wrt (<) (walked_dates a s en)
       \<and> set (walked_dates a s en) = {d. s \<le> d \<and> d \<le> en \<and> \<not> (no_weekends a \<and> 5 \<le> weekday d)}
       \<and> (\<not> no_weekends a \<longrightarrow> walked_dates a s en = [s..en])
       \<and> (days_before a = 0 \<and> days_after a = 0 \<and> \<not> no_weekends a
            \<longrightarrow> walked_dates a s en = [today w])"
proof -
  have "simulate_commits a w
           = bind (open_activity_file (file a))
               (\<lambda>_. for_each (walked_dates a s en) (day_commits a)) w"
    using assms by (rule simulate_commits_walk)
  moreover have "sorted_wrt (<) (walked_dates a s en)"
    by (simp add: walked_dates_def sorted_wrt_filter)
  moreover have "set (walked_dates a s en)
      = {d. s \<le> d \<and> d \<le> en \<and> \<not> (no_weekends a \<and> 5 \<le> weekday d)}"
    by (auto simp: walked_dates_def)
  moreover have "\<not> no_weekends a \<longrightarrow> walked_dates a s en = [s..en]"
    by (simp add: walked_dates_def)
  moreover have "days_before a = 0 \<and> days_after a = 0 \<and> \<not> no_weekends a
            \<longrightarrow> walked_dates a s en = [today w]"
    using s en by (simp add: walked_dates_def)
  ultimately show ?thesis by blast
qed

theorem date_range_walk_witness:
  "simulate_commits example_args example_world
     = bind (open_activity_file (file example_args))
         (\<lambda>_. for_each (walked_dates example_args 738886 738886) (day_commits example_args))
         example_world
   \<and> walked_dates example_args 738886 738886 = [today example_world]
   \<and> today example_world = 738886
   \<and> simulate_commits weekend_args weekend_world
     = bind (open_activity_file (file weekend_args))
         (\<lambda>_. for_each (walked_dates weekend_args 738883 738885) (day_commits weekend_args))
         weekend_world
   \<and> walked_dates weekend_args 738883 738885 = [738883]"
proof -
  have h: "738886 = today example_world - days_before example_args"
    "738886 = today example_world + days_after example_args"
    "\<bar>days_before example_args\<bar> \<le> 999999999" "\<bar>days_after example_args\<bar> \<le> 999999999"
    "(0::int) < 738886" "738886 \<le> MAXORDINAL" "738886 < MAXORDINAL"
    "days_before example_args = 0 \<and> days_after example_args = 0 \<and> \<not> no_weekends example_args"
    by (simp_all add: example_world_def example_args_def MAXORDINAL_def)
  have g: "738883 = today weekend_world - days_before weekend_args"
    "738885 = today weekend_world + days_after weekend_args"
    "\<bar>days_before weekend_args\<bar> \<le> 999999999" "\<bar>days_after weekend_args\<bar> \<le> 999999999"
    "(0::int) < 738883" "738883 \<le> MAXORDINAL" "(0::int) < 738885" "738885 < MAXORDINAL"
    by (simp_all add: weekend_world_def weekend_args_def example_world_def example_args_def
        MAXORDINAL_def)
  have c: "walked_dates weekend_args 738883 738885 = [738883]"
    by (simp add: walked_dates_def weekend_args_def example_args_def weekday_def)
  have d: "today example_world = 738886" by (simp add: example_world_def)
  from date_range_walk[OF h(1-5) h(6) h(5) h(7)] h(8) date_range_walk[OF g] c d
  show ?thesis by blast
qed

subsection \<open>One day\<close>


text \<open>The tape does not restrict the draws: every value of a range can be drawn.\<close>

lemma randint_any_value:
  assumes "lo \<le> v" "v \<le> hi"
  shows "fst (randint lo hi (w\<lparr>tape := (\<lambda>n. nat (v - lo))\<rparr>)) = Inr v"
proof -
  have "nat (v - lo) < nat (hi - lo + 1)" using assms by simp
  then have "nat (v - lo) mod nat (hi - lo + 1) = nat (v - lo)" by (rule mod_less)
  then show ?thesis using assms by (simp add: randint_def)
qed




subsection \<open>An empty range for the commit count\<close>






subsection \<open>The review\<close>

lemma create_review_eval:
  "create_review pr body event w =
     (let w1 = w\<lparr>trace := trace w @ [Api (ApiCreateReview (pr_number pr) body event)]\<rparr>
      in if faults w (length (trace w))
         then (Inl (GithubException (ApiCreateReview (pr_number pr) body event)), w1)
         else (Inr (), w1\<lparr>reviews := reviews w @
                 [\<lparr>rv_pull = pr_number pr, rv_body = body, rv_event = event\<rparr>]\<rparr>))"
  by (simp add: create_review_def api_def Let_def)

lemma coin_flip: "[True, False] ! (n mod Suc (Suc 0)) = (n mod 2 = 0)"
proof -
  have "n mod 2 = 0 \<or> n mod 2 = 1" by arith
  then show ?thesis by (auto simp: numeral_2_eq_2[symmetric])
qed

lemma simulate_code_review_eval:
  "simulate_code_review pr w =
    (let body = (if tape w (drawn w) mod 2 = 0 then review_issues else review_clean);
         c = ApiCreateReview (pr_number pr) body ''COMMENT'';
         w1 = w\<lparr>drawn := Suc (drawn w), trace := trace w @ [Api c]\<rparr>
     in if faults w (length (trace w))
        then (Inr (), w1\<lparr>log := log w @
                [Error ''Error simulating code review: '' (Some (GithubException c))]\<rparr>)
        else (Inr (), w1\<lparr>reviews := reviews w @
                [\<lparr>rv_pull = pr_number pr, rv_body = body, rv_event = ''COMMENT''\<rparr>],
                log := log w @ [Info ''Simulated code review: posted comment.'']\<rparr>))"
  by (simp add: simulate_code_review_def except_Exception_def bind_def choice_def
      create_review_eval logging_info_def logging_error_def Let_def coin_flip)


lemma review_messages_differ: "review_issues \<noteq> review_clean"
  by (simp add: review_issues_def review_clean_def)

text \<open>
  Claim C9. \<^verbatim>\<open>simulate_code_review\<close> never raises. It makes exactly one forge call, a
  review of the pull request with event \<^verbatim>\<open>COMMENT\<close>, whose body is one of the two fixed
  messages, chosen by \<^verbatim>\<open>random.choice([True, False])\<close>: the issues message when the
  choice is the first element, the clean message otherwise. When the call succeeds the
  forge holds that one review more; when it fails nothing is posted and the error is
  logged.
\<close>

theorem review_is_comment:
  "fst (simulate_code_review pr w) = Inr ()
   \<and> (\<exists>body.
         body = (if tape w (drawn w) mod 2 = 0 then review_issues else review_clean)
       \<and> trace (snd (simulate_code_review pr w))
           = trace w @ [Api (ApiCreateReview (pr_number pr) body ''COMMENT'')]
       \<and> (if faults w (length (trace w))
          then reviews (snd (simulate_code_review pr w)) = reviews w
             \<and> log (snd (simulate_code_review pr w)) = log w @
                  [Error ''Error simulating code review: ''
                     (Some (GithubException (ApiCreateReview (pr_number pr) body ''COMMENT'')))]
          else reviews (snd (simulate_code_review pr w)) = reviews w @
                  [\<lparr>rv_pull = pr_number pr, rv_body = body, rv_event = ''COMMENT''\<rparr>]
             \<and> log (snd (simulate_code_review pr w)) = log w @
                  [Info ''Simulated code review: posted comment.'']))
   \<and> review_issues \<noteq> review_clean
   \<and> ''COMMENT'' \<noteq> ''APPROVE'' \<and> ''COMMENT'' \<noteq> ''REQUEST_CHANGES''"
  by (simp add: simulate_code_review_eval Let_def review_messages_differ)

theorem review_is_comment_witness:
  "reviews (snd (simulate_code_review example_pull example_world))
     = [\<lparr>rv_pull = 7, rv_body = review_clean, rv_event = ''COMMENT''\<rparr>]
   \<and> reviews (snd (simulate_code_review example_pull even_world))
     = [\<lparr>rv_pull = 7, rv_body = review_issues, rv_event = ''COMMENT''\<rparr>]
   \<and> fst (simulate_code_review example_pull failing_world) = Inr ()
   \<and> reviews (snd (simulate_code_review example_pull failing_world)) = []
   \<and> log (snd (simulate_code_review example_pull failing_world))
       = [Error ''Error simulating code review: ''
            (Some (GithubException (ApiCreateReview 7 review_clean ''COMMENT'')))]"
proof -
  have e: "tape example_world (drawn example_world) mod 2 \<noteq> 0"
    "\<not> faults example_world (length (trace example_world))"
    "reviews example_world = []" "pr_number example_pull = 7"
    "tape even_world (drawn even_world) mod 2 = 0"
    "\<not> faults even_world (length (trace even_world))" "reviews even_world = []"
    "tape failing_world (drawn failing_world) mod 2 \<noteq> 0"
    "faults failing_world (length (trace failing_world))"
    "reviews failing_world = []" "log failing_world = []"
    by (simp_all add: example_world_def even_world_def failing_world_def example_pull_def)
  from review_is_comment[of example_pull example_world] e(1-4)
  have a: "reviews (snd (simulate_code_review example_pull example_world))
     = [\<lparr>rv_pull = 7, rv_body = review_clean, rv_event = ''COMMENT''\<rparr>]"
    by simp
  from review_is_comment[of example_pull even_world] e(4-7)
  have b: "reviews (snd (simulate_code_review example_pull even_world))
     = [\<lparr>rv_pull = 7, rv_body = review_issues, rv_event = ''COMMENT''\<rparr>]"
    by simp
  from review_is_comment[of example_pull failing_world] e(4) e(8-11)
  have c: "fst (simulate_code_review example_pull failing_world) = Inr ()
   \<and> reviews (snd (simulate_code_review example_pull failing_world)) = []
   \<and> log (snd (simulate_code_review example_pull failing_world))
       = [Error ''Error simulating code review: ''
            (Some (GithubException (ApiCreateReview 7 review_clean ''COMMENT'')))]"
    by simp
  from a b c show ?thesis by blast
qed

subsection \<open>The repository name\<close>

lemma run_config_eval:
  "run_checked GitConfigGetOriginUrl [] w =
     (let w1 = w\<lparr>trace := trace w @ [Git GitConfigGetOriginUrl []]\<rparr>
      in if faults w (length (trace w)) then (Inl (CalledProcessError GitConfigGetOriginUrl), w1)
         else case map_of (remotes w) ''origin'' of
                None \<Rightarrow> (Inl (CalledProcessError GitConfigGetOriginUrl), w1)
              | Some url \<Rightarrow> (Inr (url @ newline), w1))"
  by (simp add: run_checked_def run_def Let_def split: option.splits)

lemma startswith_append [simp]: "startswith (p @ s) p"
  by (simp add: startswith_def)

lemma startswith_iff: "startswith s p \<longleftrightarrow> (\<exists>t. s = p @ t)"
  unfolding startswith_def by (metis append_eq_conv_conj append_take_drop_id)

lemma endswith_iff: "endswith s p \<longleftrightarrow> (\<exists>t. s = t @ p)"
proof
  assume "endswith s p"
  then have "drop (length s - length p) s = p" by (simp add: endswith_def)
  then have "s = take (length s - length p) s @ p"
    by (metis append_take_drop_id)
  then show "\<exists>t. s = t @ p" ..
next
  assume "\<exists>t. s = t @ p"
  then show "endswith s p" by (auto simp: endswith_def)
qed

lemma strip_git_suffix_append [simp]: "strip_git_suffix (t @ ''.git'') = t"
  by (simp add: strip_git_suffix_def endswith_def)

lemma get_name_eval:
  "get_github_repo_name_from_remote w =
     (let w1 = w\<lparr>trace := trace w @ [Git GitConfigGetOriginUrl []]\<rparr>
      in if faults w (length (trace w)) \<or> map_of (remotes w) ''origin'' = None
         then (Inr None, w1\<lparr>log := log w @ [Error ''Error getting GitHub repo name: ''
                                 (Some (CalledProcessError GitConfigGetOriginUrl))]\<rparr>)
         else
           let u = py_strip (the (map_of (remotes w) ''origin'') @ newline);
               name = strip_git_suffix
                 (if startswith u ''git@github.com:'' then drop (length ''git@github.com:'') u
                  else if startswith u ''https://github.com/'' then drop (length ''https://github.com/'') u
                  else u)
           in (Inr (Some name),
               w1\<lparr>log := log w @ [Info (''Determined GitHub repo name: '' @ name)]\<rparr>))"
  unfolding get_github_repo_name_from_remote_def except_Exception_def bind_def
      run_config_eval Let_def logging_info_def logging_error_def ret_def strip_git_suffix_def
  by (cases "map_of (remotes w) ''origin''") simp_all


text \<open>
  Claim C4, as the code has it. \<^verbatim>\<open>get_github_repo_name_from_remote\<close> never raises, and
  it returns nothing exactly when \<^verbatim>\<open>git config --get remote.origin.url\<close> fails (no
  origin is configured, or the command fails for a reason of its own). Otherwise it
  returns a string: for an origin URL that (stripped of surrounding white space) starts
  with \<^verbatim>\<open>git@github.com:\<close> or with \<^verbatim>\<open>https://github.com/\<close>, the rest after that prefix
  without a trailing \<^verbatim>\<open>.git\<close>; for a URL that starts with neither, the URL itself without
  a trailing \<^verbatim>\<open>.git\<close>.
\<close>

theorem repo_name_resolution:
  "(fst (get_github_repo_name_from_remote w) = Inr None
      \<longleftrightarrow> faults w (length (trace w)) \<or> map_of (remotes w) ''origin'' = None)
   \<and> (\<not> faults w (length (trace w)) \<and> map_of (remotes w) ''origin'' = Some url
        \<and> u = py_strip (url @ newline) \<longrightarrow>
        (\<forall>rest. u = ''git@github.com:'' @ rest \<longrightarrow>
           fst (get_github_repo_name_from_remote w) = Inr (Some (strip_git_suffix rest)))
      \<and> (\<forall>rest. u = ''https://github.com/'' @ rest \<longrightarrow>
           fst (get_github_repo_name_from_remote w) = Inr (Some (strip_git_suffix rest)))
      \<and> (\<not> startswith u ''git@github.com:'' \<and> \<not> startswith u ''https://github.com/'' \<longrightarrow>
           fst (get_github_repo_name_from_remote w) = Inr (Some (strip_git_suffix u))))
   \<and> strip_git_suffix (t @ ''.git'') = t
   \<and> (\<not> endswith s ''.git'' \<longrightarrow> strip_git_suffix s = s)"
proof (intro conjI impI allI)
  show "fst (get_github_repo_name_from_remote w) = Inr None
      \<longleftrightarrow> faults w (length (trace w)) \<or> map_of (remotes w) ''origin'' = None"
    by (simp add: get_name_eval Let_def)
next
  fix rest
  assume h: "\<not> faults w (length (trace w)) \<and> map_of (remotes w) ''origin'' = Some url
        \<and> u = py_strip (url @ newline)" and u: "u = ''git@github.com:'' @ rest"
  from h have "py_strip (url @ newline) = u" by simp
  with h show "fst (get_github_repo_name_from_remote w) = Inr (Some (strip_git_suffix rest))"
    by (simp add: get_name_eval Let_def u startswith_def)
next
  fix rest
  assume h: "\<not> faults w (length (trace w)) \<and> map_of (remotes w) ''origin'' = Some url
        \<and> u = py_strip (url @ newline)" and u: "u = ''https://github.com/'' @ rest"
  have no: "\<not> startswith (''https://github.com/'' @ rest) ''git@github.com:''"
    by (simp add: startswith_def)
  from h have "py_strip (url @ newline) = u" by simp
  with h no show "fst (get_github_repo_name_from_remote w) = Inr (Some (strip_git_suffix rest))"
    by (simp add: get_name_eval Let_def u startswith_def)
next
  assume h: "\<not> faults w (length (trace w)) \<and> map_of (remotes w) ''origin'' = Some url
        \<and> u = py_strip (url @ newline)"
    and no: "\<not> startswith u ''git@github.com:'' \<and> \<not> startswith u ''https://github.com/''"
  from h have "py_strip (url @ newline) = u" by simp
  with h no show "fst (get_github_repo_name_from_remote w) = Inr (Some (strip_git_suffix u))"
    by (simp add: get_name_eval Let_def)
next
  show "strip_git_suffix (t @ ''.git'') = t" by simp
next
  assume "\<not> endswith s ''.git''"
  then show "strip_git_suffix s = s" by (simp add: strip_git_suffix_def)
qed

lemma py_strip_gitlab:
  "py_strip (''git@gitlab.com:user/repo.git'' @ newline) = ''git@gitlab.com:user/repo.git''"
  by (simp add: py_strip_def py_isspace_def newline_def)

lemma py_strip_github:
  "py_strip (''git@github.com:user/repo.git'' @ newline) = ''git@github.com:user/repo.git''"
  by (simp add: py_strip_def py_isspace_def newline_def)

lemma get_name_unrecognized:
  assumes "\<not> faults w (length (trace w))" "map_of (remotes w) ''origin'' = Some url"
    and "py_strip (url @ newline) = u"
    and "\<not> startswith u ''git@github.com:''" "\<not> startswith u ''https://github.com/''"
  shows "fst (get_github_repo_name_from_remote w) = Inr (Some (strip_git_suffix u))"
  using assms by (simp add: get_name_eval Let_def)

theorem repo_name_unrecognized_counterexample:
  "\<not> startswith ''git@gitlab.com:user/repo.git'' ''git@github.com:''
   \<and> \<not> startswith ''git@gitlab.com:user/repo.git'' ''https://github.com/''
   \<and> map_of (remotes gitlab_world) ''origin'' = Some ''git@gitlab.com:user/repo.git''
   \<and> fst (get_github_repo_name_from_remote gitlab_world) = Inr (Some ''git@gitlab.com:user/repo'')"
proof -
  have f: "\<not> faults gitlab_world (length (trace gitlab_world))"
    and m: "map_of (remotes gitlab_world) ''origin'' = Some ''git@gitlab.com:user/repo.git''"
    by (simp_all add: gitlab_world_def example_world_def)
  have ns: "\<not> startswith ''git@gitlab.com:user/repo.git'' ''git@github.com:''"
    "\<not> startswith ''git@gitlab.com:user/repo.git'' ''https://github.com/''"
    by (simp_all add: startswith_def)
  have sg: "strip_git_suffix ''git@gitlab.com:user/repo.git'' = ''git@gitlab.com:user/repo''"
    by (simp add: strip_git_suffix_def endswith_def)
  have "fst (get_github_repo_name_from_remote gitlab_world)
      = Inr (Some (strip_git_suffix ''git@gitlab.com:user/repo.git''))"
    using f m py_strip_gitlab ns by (rule get_name_unrecognized)
  with sg m ns show ?thesis by simp
qed

theorem repo_name_resolution_witness:
  "\<not> faults github_world (length (trace github_world))
   \<and> map_of (remotes github_world) ''origin'' = Some ''git@github.com:user/repo.git''
   \<and> fst (get_github_repo_name_from_remote github_world) = Inr (Some ''user/repo'')
   \<and> \<not> faults gitlab_world (length (trace gitlab_world))
   \<and> fst (get_github_repo_name_from_remote gitlab_world)
       = Inr (Some (strip_git_suffix ''git@gitlab.com:user/repo.git''))
   \<and> map_of (remotes example_world) ''origin'' = None
   \<and> fst (get_github_repo_name_from_remote example_world) = Inr None"
proof -
  let ?hub = "''git@github.com:user/repo.git''"
  let ?lab = "''git@gitlab.com:user/repo.git''"
  have h: "\<not> faults github_world (length (trace github_world))"
    "map_of (remotes github_world) ''origin'' = Some ?hub"
    by (simp_all add: github_world_def example_world_def)
  have hs: "?hub = ''git@github.com:'' @ ''user/repo.git''" by simp
  have g: "\<not> faults gitlab_world (length (trace gitlab_world))"
    "map_of (remotes gitlab_world) ''origin'' = Some ?lab"
    by (simp_all add: gitlab_world_def example_world_def)
  have gs: "\<not> startswith ?lab ''git@github.com:'' \<and> \<not> startswith ?lab ''https://github.com/''"
    by (simp add: startswith_def)
  have n: "map_of (remotes example_world) ''origin'' = None"
    by (simp add: example_world_def)
  have s: "strip_git_suffix (''user/repo'' @ ''.git'') = ''user/repo''"
    by (rule repo_name_resolution[where t="''user/repo''", THEN conjunct2, THEN conjunct2,
          THEN conjunct1])
  have pre_h: "\<not> faults github_world (length (trace github_world))
      \<and> map_of (remotes github_world) ''origin'' = Some ?hub
      \<and> ?hub = py_strip (?hub @ newline)"
    using h py_strip_github[symmetric] by (intro conjI)
  note Th = repo_name_resolution[where w=github_world and url="?hub" and u="?hub",
      THEN conjunct2, THEN conjunct1, THEN mp, OF pre_h]
  have a: "fst (get_github_repo_name_from_remote github_world)
      = Inr (Some (strip_git_suffix ''user/repo.git''))"
    by (rule Th[THEN conjunct1, THEN spec, THEN mp, OF hs])
  have pre_g: "\<not> faults gitlab_world (length (trace gitlab_world))
      \<and> map_of (remotes gitlab_world) ''origin'' = Some ?lab
      \<and> ?lab = py_strip (?lab @ newline)"
    using g py_strip_gitlab[symmetric] by (intro conjI)
  note Tg = repo_name_resolution[where w=gitlab_world and url="?lab" and u="?lab",
      THEN conjunct2, THEN conjunct1, THEN mp, OF pre_g]
  have b: "fst (get_github_repo_name_from_remote gitlab_world)
       = Inr (Some (strip_git_suffix ?lab))"
    by (rule Tg[THEN conjunct2, THEN conjunct2, THEN mp, OF gs])
  have c: "fst (get_github_repo_name_from_remote example_world) = Inr None"
    using repo_name_resolution[where w=example_world, THEN conjunct1] n by simp
  from s have s': "strip_git_suffix ''user/repo.git'' = ''user/repo''" by simp
  show ?thesis
    unfolding a s' b c using h g n by (intro conjI) simp_all
qed

subsection \<open>Repository setup\<close>

lemma init_repo_eval:
  "init_repo w =
     (if git_dir w then (Inr (), w\<lparr>log := log w @ [Info ''Git repository already initialized.'']\<rparr>)
      else let w1 = w\<lparr>trace := trace w @ [Git GitInit []]\<rparr>
           in if faults w (length (trace w)) then (Inl (CalledProcessError GitInit), w1)
              else (Inr (), w1\<lparr>git_dir := True,
                      log := log w @ [Info ''Initialized a new git repository.'']\<rparr>))"
  by (simp add: init_repo_def bind_def run_checked_def run_def logging_info_def Let_def)

lemma set_remote_eval:
  "set_remote url w =
     (let w1 = w\<lparr>trace := trace w @ [Git GitRemote []]\<rparr>
      in if py_in ''origin'' (remote_listing w)
         then (Inr (), w1\<lparr>log := log w @ [Info ''Remote origin already set.'']\<rparr>)
         else
           let w2 = w\<lparr>trace := trace w @ [Git GitRemote [], Git (GitRemoteAdd ''origin'' url) []]\<rparr>
           in if faults w (Suc (length (trace w))) \<or> map_of (remotes w) ''origin'' \<noteq> None
              then (Inl (CalledProcessError (GitRemoteAdd ''origin'' url)), w2)
              else (Inr (), w2\<lparr>remotes := remotes w @ [(''origin'', url)],
                      log := log w @ [Info (''Set remote origin to '' @ url @ ''.'')]\<rparr>))"
  by (auto simp: set_remote_def bind_def run_checked_def run_def logging_info_def Let_def
      remote_listing_def)

lemma py_in_iff: "py_in p s \<longleftrightarrow> (\<exists>a b. s = a @ p @ b)"
proof (induction s)
  case Nil
  show ?case by auto
next
  case (Cons c cs)
  show ?case
  proof
    assume "py_in p (c # cs)"
    then consider "startswith (c # cs) p" | "py_in p cs" by auto
    then show "\<exists>a b. c # cs = a @ p @ b"
    proof cases
      case 1
      then obtain t where "c # cs = p @ t" by (auto simp: startswith_iff)
      then have "c # cs = [] @ p @ t" by simp
      then show ?thesis by blast
    next
      case 2
      with Cons.IH obtain a b where "cs = a @ p @ b" by blast
      then have "c # cs = (c # a) @ p @ b" by simp
      then show ?thesis by blast
    qed
  next
    assume "\<exists>a b. c # cs = a @ p @ b"
    then obtain a b where ab: "c # cs = a @ p @ b" by blast
    show "py_in p (c # cs)"
    proof (cases a)
      case Nil
      with ab have "startswith (c # cs) p" by (auto simp: startswith_iff)
      then show ?thesis by simp
    next
      case (Cons x a')
      with ab have "cs = a' @ p @ b" by simp
      with Cons.IH have "py_in p cs" by blast
      then show ?thesis by simp
    qed
  qed
qed

lemma listing_has_name:
  assumes "map_of rs name \<noteq> None"
  shows "py_in name (concat (map (\<lambda>r. fst r @ newline) rs))"
proof -
  from assms obtain url where "map_of rs name = Some url" by auto
  then have "(name, url) \<in> set rs" by (rule map_of_SomeD)
  then obtain xs ys where "rs = xs @ (name, url) # ys" by (auto simp: in_set_conv_decomp)
  then have "concat (map (\<lambda>r. fst r @ newline) rs)
      = concat (map (\<lambda>r. fst r @ newline) xs) @ name
          @ (newline @ concat (map (\<lambda>r. fst r @ newline) ys))"
    by simp
  then show ?thesis unfolding py_in_iff by blast
qed

text \<open>
  Claim C7 at a repository whose only remote is named \<^verbatim>\<open>my-origin\<close>: no remote named
  \<^verbatim>\<open>origin\<close> is configured, yet \<^verbatim>\<open>set_remote\<close> finds the text \<^verbatim>\<open>origin\<close> in the output
  of \<^verbatim>\<open>git remote\<close>, adds nothing and logs that the remote is already set.
\<close>

theorem set_remote_substring:
  "map_of (remotes fork_world) ''origin'' = None
   \<and> fst (set_remote ''git@github.com:user/repo.git'' fork_world) = Inr ()
   \<and> remotes (snd (set_remote ''git@github.com:user/repo.git'' fork_world))
       = [(''my-origin'', ''git@github.com:me/fork.git'')]
   \<and> trace (snd (set_remote ''git@github.com:user/repo.git'' fork_world)) = [Git GitRemote []]
   \<and> log (snd (set_remote ''git@github.com:user/repo.git'' fork_world))
       = [Info ''Remote origin already set.'']"
proof -
  have l: "py_in ''origin'' (remote_listing fork_world)"
    by (simp add: remote_listing_def fork_world_def example_world_def startswith_def newline_def)
  show ?thesis
    by (simp add: set_remote_eval l Let_def) (simp add: fork_world_def example_world_def)
qed


text \<open>
  What does hold of the setup. A second \<^verbatim>\<open>init_repo\<close> after one that returned runs no
  command and leaves the repository as it is. A second \<^verbatim>\<open>set_remote\<close> after one that
  returned, when its \<^verbatim>\<open>git remote\<close> runs, returns and leaves the repository as it is.
  \<^verbatim>\<open>set_remote\<close> changes the remotes only by adding \<^verbatim>\<open>origin\<close> with the given URL when
  no remote of that name is configured, so it never makes a duplicate.
\<close>

theorem setup_idempotent:
  "(fst (init_repo w) = Inr () \<longrightarrow>
        fst (init_repo (snd (init_repo w))) = Inr ()
      \<and> repo_state (snd (init_repo (snd (init_repo w)))) = repo_state (snd (init_repo w))
      \<and> trace (snd (init_repo (snd (init_repo w)))) = trace (snd (init_repo w)))
   \<and> (fst (set_remote url w) = Inr () \<and> w1 = snd (set_remote url w)
        \<and> \<not> faults w1 (length (trace w1)) \<longrightarrow>
        fst (set_remote url w1) = Inr ()
      \<and> repo_state (snd (set_remote url w1)) = repo_state w1)
   \<and> (remotes (snd (set_remote url w)) \<noteq> remotes w \<longrightarrow>
        map_of (remotes w) ''origin'' = None
      \<and> remotes (snd (set_remote url w)) = remotes w @ [(''origin'', url)])
   \<and> (distinct (map fst (remotes w)) \<longrightarrow> distinct (map fst (remotes (snd (set_remote url w)))))"
proof (intro conjI impI)
  assume ok: "fst (init_repo w) = Inr ()"
  then have g: "git_dir (snd (init_repo w))"
    by (auto simp: init_repo_eval Let_def split: if_splits)
  then show "fst (init_repo (snd (init_repo w))) = Inr ()"
    "repo_state (snd (init_repo (snd (init_repo w)))) = repo_state (snd (init_repo w))"
    "trace (snd (init_repo (snd (init_repo w)))) = trace (snd (init_repo w))"
    by (simp_all add: init_repo_eval[of "snd (init_repo w)"] repo_state_def)
next
  assume h: "fst (set_remote url w) = Inr () \<and> w1 = snd (set_remote url w)
        \<and> \<not> faults w1 (length (trace w1))"
  then have ok: "fst (set_remote url w) = Inr ()" and w1: "w1 = snd (set_remote url w)"
    and nf: "\<not> faults w1 (length (trace w1))" by blast+
  have listed: "py_in ''origin'' (remote_listing w1)"
  proof (cases "py_in ''origin'' (remote_listing w)")
    case True
    then have "remote_listing w \<noteq> []" by auto
    then have "remote_listing w = concat (map (\<lambda>r. fst r @ newline) (remotes w))"
      by (simp add: remote_listing_def split: if_splits)
    moreover from True have "remotes w1 = remotes w"
      by (simp add: w1 set_remote_eval Let_def)
    ultimately show ?thesis using True nf by (simp add: remote_listing_def)
  next
    case False
    with ok have "remotes w1 = remotes w @ [(''origin'', url)]"
      by (auto simp: w1 set_remote_eval Let_def split: if_splits)
    then have "map_of (remotes w1) ''origin'' \<noteq> None" by (simp add: map_of_append)
    then have "py_in ''origin'' (concat (map (\<lambda>r. fst r @ newline) (remotes w1)))"
      by (rule listing_has_name)
    with nf show ?thesis by (simp add: remote_listing_def)
  qed
  then show "fst (set_remote url w1) = Inr ()"
    "repo_state (snd (set_remote url w1)) = repo_state w1"
    by (simp_all add: set_remote_eval[of url w1] Let_def repo_state_def)
next
  assume "remotes (snd (set_remote url w)) \<noteq> remotes w"
  then show "map_of (remotes w) ''origin'' = None"
    "remotes (snd (set_remote url w)) = remotes w @ [(''origin'', url)]"
    by (auto simp: set_remote_eval Let_def split: if_splits)
next
  assume d: "distinct (map fst (remotes w))"
  show "distinct (map fst (remotes (snd (set_remote url w))))"
  proof (cases "remotes (snd (set_remote url w)) = remotes w")
    case True
    with d show ?thesis by simp
  next
    case False
    then have n: "map_of (remotes w) ''origin'' = None"
      and r: "remotes (snd (set_remote url w)) = remotes w @ [(''origin'', url)]"
      by (auto simp: set_remote_eval Let_def split: if_splits)
    from n have "''origin'' \<notin> fst ` set (remotes w)" by (simp add: map_of_eq_None_iff)
    with d r show ?thesis by simp
  qed
qed

theorem setup_idempotent_witness:
  "fst (set_remote ''git@github.com:user/repo.git'' example_world) = Inr ()
   \<and> remotes (snd (set_remote ''git@github.com:user/repo.git'' example_world))
       = [(''origin'', ''git@github.com:user/repo.git'')]
   \<and> fst (set_remote ''git@github.com:user/repo.git''
            (snd (set_remote ''git@github.com:user/repo.git'' example_world))) = Inr ()
   \<and> repo_state (snd (set_remote ''git@github.com:user/repo.git''
            (snd (set_remote ''git@github.com:user/repo.git'' example_world))))
       = repo_state (snd (set_remote ''git@github.com:user/repo.git'' example_world))"
proof -
  let ?url = "''git@github.com:user/repo.git''"
  let ?w1 = "snd (set_remote ?url example_world)"
  have l: "\<not> py_in ''origin'' (remote_listing example_world)"
    by (simp add: remote_listing_def example_world_def)
  have e: "set_remote ?url example_world
      = (Inr (), example_world\<lparr>trace := [Git GitRemote [], Git (GitRemoteAdd ''origin'' ?url) []],
           remotes := [(''origin'', ?url)],
           log := [Info (''Set remote origin to '' @ ?url @ ''.'')]\<rparr>)"
    by (simp add: set_remote_eval l Let_def) (simp add: example_world_def)
  have h: "fst (set_remote ?url example_world) = Inr ()"
    "remotes ?w1 = [(''origin'', ?url)]"
    "\<not> faults ?w1 (length (trace ?w1))"
    by (simp_all add: e) (simp add: example_world_def)
  have pre: "fst (set_remote ?url example_world) = Inr () \<and> ?w1 = snd (set_remote ?url example_world)
        \<and> \<not> faults ?w1 (length (trace ?w1))"
    using h by simp
  note T = setup_idempotent[where url="?url" and w=example_world and ?w1.0="?w1",
      THEN conjunct2, THEN conjunct1, THEN mp, OF pre]
  from T h show ?thesis by simp
qed


subsection \<open>The events of a run\<close>






















subsection \<open>The remote phase\<close>










subsection \<open>What can leave main uncaught\<close>











subsection \<open>A run without a token\<close>


















subsection \<open>What aborts the run\<close>




















end
